theory Spec2Isabelle
  imports Complex_Main "HOL-Library.Word" "HOL-Library.Sublist"
begin

section \<open>Proposal parameters and proposals (mot/parameter_functions/proposals.py)\<close>

text \<open>
  A \<open>ProposalParameter\<close> is a container with the two attributes its constructor stores.
  The documented type of \<open>default_value\<close> is a double; it is read here as a real number.
\<close>

record ProposalParameter =
  default_value :: real
  adaptable :: bool

definition ProposalParameter_init :: "real \<Rightarrow> bool \<Rightarrow> ProposalParameter" where
  "ProposalParameter_init dv ad = \<lparr>default_value = dv, adaptable = ad\<rparr>"

text \<open>
  The class hierarchy: the base class \<open>AbstractParameterProposal\<close> (no attributes) and its
  only subclass \<open>GaussianProposal\<close>, whose single attribute \<open>_parameters\<close> is a list.
\<close>

datatype proposal =
    AbstractParameterProposal
  | GaussianProposal (parameters: "ProposalParameter list")

text \<open>
  \<open>GaussianProposal.__init__(self, std=1.0, adaptable=True)\<close>; an omitted argument is
  \<open>None\<close> here and takes the default of the signature.
\<close>

definition GaussianProposal_init :: "real option \<Rightarrow> bool option \<Rightarrow> proposal" where
  "GaussianProposal_init std_arg adaptable_arg =
     GaussianProposal
       [ProposalParameter_init (case std_arg of None \<Rightarrow> 1.0 | Some s \<Rightarrow> s)
                               (case adaptable_arg of None \<Rightarrow> True | Some a \<Rightarrow> a)]"

text \<open>A Python triple-quoted literal, written line by line; lines are joined by a newline.\<close>

fun join_lines :: "string list \<Rightarrow> string" where
  "join_lines [] = []"
| "join_lines [l] = l"
| "join_lines (l # ls) = l @ CHR 0x0A # join_lines ls"

subsection \<open>Methods of ProposalParameter\<close>

definition get_parameter_update_function :: "ProposalParameter \<Rightarrow> string" where
  "get_parameter_update_function self = join_lines
     ['''',
      ''            #ifndef DMRIPROPOSAL_DEFAULT_PARAMETER_UPDATE'',
      ''            #define DMRIPROPOSAL_DEFAULT_PARAMETER_UPDATE'',
      '''',
      ''            model_float dmriproposal_default_parameter_update(const model_float current_value,'',
      ''                                                              const uint acceptance_counter,'',
      ''                                                              const uint jump_counter){'',
      ''                return min(current_value *'',
      ''                                sqrt( (model_float)(acceptance_counter+1) /'',
      ''                                      ((jump_counter - acceptance_counter) + 1)'',
      ''                                ),'',
      ''                           1e10);'',
      ''            }'',
      '''',
      ''            #endif //DMRIPROPOSAL_DEFAULT_PARAMETER_UPDATE'',
      ''        '']"

definition get_parameter_update_function_name :: "ProposalParameter \<Rightarrow> string" where
  "get_parameter_update_function_name self = ''dmriproposal_default_parameter_update''"

subsection \<open>Methods of the proposals\<close>

text \<open>
  The methods of the base class have a docstring as their whole body, so they return Python's
  \<open>None\<close>; \<open>GaussianProposal\<close> overrides all of them except the property \<open>is_symmetric\<close>.
\<close>

fun is_symmetric :: "proposal \<Rightarrow> bool" where
  "is_symmetric self = True"

fun get_parameters :: "proposal \<Rightarrow> ProposalParameter list option" where
  "get_parameters AbstractParameterProposal = None"
| "get_parameters (GaussianProposal ps) = Some ps"

text \<open>
  \<open>get_proposal_function\<close> is written with the instance threaded through the call: it gives
  the returned value and the instance after the call. Neither body assigns to \<open>self\<close>.
\<close>

fun get_proposal_function :: "proposal \<Rightarrow> string option \<times> proposal" where
  "get_proposal_function AbstractParameterProposal = (None, AbstractParameterProposal)"
| "get_proposal_function (GaussianProposal ps) = (Some (join_lines
     ['''',
      ''            #ifndef DMRIPROP_GAUSSIANPROPOSAL_CL'',
      ''            #define DMRIPROP_GAUSSIANPROPOSAL_CL'',
      '''',
      ''            model_float dmriproposal_gaussianProposal(const model_float current, ranluxcl_state_t* const ranluxclstate,'',
      ''                                                      const model_float std){'',
      ''                return current + std * ranluxcl_gaussian(ranluxclstate);'',
      ''            }'',
      '''',
      ''            #endif //DMRIPROP_GAUSSIANPROPOSAL_CL'',
      ''        '']), GaussianProposal ps)"

fun get_proposal_function_name :: "proposal \<Rightarrow> string option" where
  "get_proposal_function_name AbstractParameterProposal = None"
| "get_proposal_function_name (GaussianProposal ps) = Some ''dmriproposal_gaussianProposal''"

fun get_proposal_logpdf_function :: "proposal \<Rightarrow> string option" where
  "get_proposal_logpdf_function AbstractParameterProposal = None"
| "get_proposal_logpdf_function (GaussianProposal ps) = Some (join_lines
     ['''',
      ''            #ifndef DMRIPROP_GAUSSIANPROPOSALLOGPDF_CL'',
      ''            #define DMRIPROP_GAUSSIANPROPOSALLOGPDF_CL'',
      '''',
      ''            model_float dmriproposal_gaussianProposalLogPDF(const model_float x, const model_float mu,'',
      ''                                                            const model_float std){'',
      ''                return log(M_2_SQRTPI / std) + (-0.5 * pown((x - mu) / std, 2));'',
      ''            }'',
      '''',
      ''            #endif //DMRIPROP_GAUSSIANPROPOSALLOGPDF_CL'',
      ''        ''])"

fun get_proposal_logpdf_function_name :: "proposal \<Rightarrow> string option" where
  "get_proposal_logpdf_function_name AbstractParameterProposal = None"
| "get_proposal_logpdf_function_name (GaussianProposal ps) =
     Some ''dmriproposal_gaussianProposalLogPDF''"

text \<open>
  A call of \<open>get_parameters\<close> as a transformer of the instance: the result and the instance
  after the call. The body assigns nothing, so the instance comes back as it was.
\<close>

definition call_get_parameters :: "proposal \<Rightarrow> ProposalParameter list option \<times> proposal" where
  "call_get_parameters self = (get_parameters self, self)"

subsection \<open>Reading a generated source fragment\<close>

text \<open>
  What a preprocessor sees of a fragment: its lines, without the surrounding blanks and
  without the empty lines.
\<close>

fun split_lines :: "string \<Rightarrow> string list" where
  "split_lines [] = [[]]"
| "split_lines (c # cs) =
     (if c = CHR 0x0A then [] # split_lines cs
      else (case split_lines cs of [] \<Rightarrow> [[c]] | l # ls \<Rightarrow> (c # l) # ls))"

definition strip :: "string \<Rightarrow> string" where
  "strip s = rev (dropWhile (\<lambda>c. c = CHR '' '') (rev (dropWhile (\<lambda>c. c = CHR '' '') s)))"

definition code_lines :: "string \<Rightarrow> string list" where
  "code_lines src = filter (\<lambda>l. l \<noteq> []) (map strip (split_lines src))"

text \<open>
  The include guard of a fragment: the first line is \<open>#ifndef G\<close>, the second \<open>#define G\<close>,
  the last one \<open>#endif\<close> followed by the comment \<open>//G\<close>, and no line between them is a
  preprocessor directive, so that the \<open>#endif\<close> closes the \<open>#ifndef\<close>.
\<close>

definition include_guard :: "string \<Rightarrow> string option" where
  "include_guard src =
     (case code_lines src of
        l1 # l2 # l3 # rest \<Rightarrow>
          (let g = drop 8 l1; body = butlast (l3 # rest) in
           if take 8 l1 = ''#ifndef '' \<and> g \<noteq> [] \<and> l2 = ''#define '' @ g
              \<and> last (l3 # rest) = ''#endif //'' @ g
              \<and> list_all (\<lambda>l. take 1 l \<noteq> ''#'') body
           then Some g else None)
      | _ \<Rightarrow> None)"

text \<open>
  The program text of a fragment: its lines that are not preprocessor directives, each
  followed by a blank.
\<close>

definition fragment_code :: "string \<Rightarrow> string" where
  "fragment_code src =
     concat (map (\<lambda>l. l @ '' '') (filter (\<lambda>l. take 1 l \<noteq> ''#'') (code_lines src)))"

definition is_ident_char :: "char \<Rightarrow> bool" where
  "is_ident_char c =
     (let n = (of_char c :: nat) in
      (48 \<le> n \<and> n \<le> 57) \<or> (65 \<le> n \<and> n \<le> 90) \<or> n = 95 \<or> (97 \<le> n \<and> n \<le> 122))"

definition skip_spaces :: "string \<Rightarrow> string" where
  "skip_spaces s = dropWhile (\<lambda>c. c = CHR '' '') s"

text \<open>
  After an opening bracket: the text behind the bracket that closes it, \<open>d\<close> counting the
  brackets opened since; \<open>None\<close> when it is never closed.
\<close>

fun after_closing :: "char \<Rightarrow> char \<Rightarrow> nat \<Rightarrow> string \<Rightarrow> string option" where
  "after_closing opn cls d [] = None"
| "after_closing opn cls d (c # cs) =
     (if c = cls then (case d of 0 \<Rightarrow> Some cs | Suc d' \<Rightarrow> after_closing opn cls d' cs)
      else if c = opn then after_closing opn cls (Suc d) cs
      else after_closing opn cls d cs)"

text \<open>
  One function definition at the head of a text: a return type and a name (two
  identifiers), a parameter list in parentheses and a body in braces, both closed. The
  result is the name and the text behind the body. A prototype, a head without a body or
  an unclosed body is no definition.
\<close>

definition function_definition :: "string \<Rightarrow> (string \<times> string) option" where
  "function_definition s =
     (let s1 = skip_spaces s;
          return_type = takeWhile is_ident_char s1;
          s2 = skip_spaces (dropWhile is_ident_char s1);
          name = takeWhile is_ident_char s2;
          s3 = skip_spaces (dropWhile is_ident_char s2)
      in if return_type = [] \<or> name = [] then None
         else (case s3 of
                 [] \<Rightarrow> None
               | c # s4 \<Rightarrow>
                   if c \<noteq> CHR ''('' then None
                   else (case after_closing (CHR ''('') (CHR '')'') 0 s4 of
                           None \<Rightarrow> None
                         | Some s5 \<Rightarrow>
                             (case skip_spaces s5 of
                                [] \<Rightarrow> None
                              | b # s6 \<Rightarrow>
                                  if b \<noteq> CHR ''{'' then None
                                  else map_option (Pair name)
                                         (after_closing (CHR ''{'') (CHR ''}'') 0 s6)))))"

text \<open>
  A text that is a sequence of function definitions and nothing else: their names, in
  order. Every definition takes at least one character, so the length of the text is
  fuel enough; anything that is not a definition gives \<open>None\<close>.
\<close>

fun function_definitions :: "nat \<Rightarrow> string \<Rightarrow> string list option" where
  "function_definitions fuel s =
     (if skip_spaces s = [] then Some []
      else (case fuel of
              0 \<Rightarrow> None
            | Suc fuel' \<Rightarrow>
                (case function_definition s of
                   None \<Rightarrow> None
                 | Some (name, rest) \<Rightarrow>
                     map_option ((#) name) (function_definitions fuel' rest))))"

text \<open>
  The functions a fragment defines: its program text read as function definitions.
  \<open>None\<close> when the text is anything else.
\<close>

definition defined_function_names :: "string \<Rightarrow> string list option" where
  "defined_function_names src =
     function_definitions (length (fragment_code src)) (fragment_code src)"

subsection \<open>What the generated kernels compute\<close>

text \<open>
  The OpenCL functions inside the three literals, read as functions on numbers. The kernel
  type \<open>model_float\<close> is idealised as the reals (no rounding, no overflow), \<open>uint\<close> is the
  32-bit unsigned integer of OpenCL C, whose arithmetic wraps around. Where the floating
  point result would be an infinity or a NaN there is no real number to return, and the
  result is \<open>None\<close>.
\<close>

type_synonym uint = "32 word"

text \<open>
  \<open>acceptance_counter+1\<close> and \<open>(jump_counter - acceptance_counter) + 1\<close> are computed in
  \<open>uint\<close> and converted for the division. A zero divisor gives an infinite or NaN
  quotient, on which OpenCL leaves \<open>min\<close> undefined.
\<close>

definition dmriproposal_default_parameter_update :: "real \<Rightarrow> uint \<Rightarrow> uint \<Rightarrow> real option" where
  "dmriproposal_default_parameter_update current_value acceptance_counter jump_counter =
     (let dividend = real (unat (acceptance_counter + 1));
          divisor = (jump_counter - acceptance_counter) + 1
      in if divisor = 0 then None
         else Some (min (current_value * sqrt (dividend / real (unat divisor))) 10000000000))"

text \<open>\<open>M_2_SQRTPI\<close> is the constant \<open>2/sqrt(pi)\<close> of OpenCL C.\<close>

definition M_2_SQRTPI :: real where
  "M_2_SQRTPI = 2 / sqrt pi"

text \<open>
  \<open>log\<close> is the natural logarithm and \<open>pown(y, 2)\<close> the square. With \<open>std < 0\<close> the
  logarithm of a negative number is NaN, with \<open>std = 0\<close> the sum is \<open>inf + (-inf)\<close> or has a
  NaN term.
\<close>

definition dmriproposal_gaussianProposalLogPDF :: "real \<Rightarrow> real \<Rightarrow> real \<Rightarrow> real option" where
  "dmriproposal_gaussianProposalLogPDF x mu std =
     (if std \<le> 0 then None
      else Some (ln (M_2_SQRTPI / std) + (- 0.5 * ((x - mu) / std) ^ 2)))"

section \<open>The factory (mot/factory.py)\<close>

text \<open>
  The classes the factory knows, as values: a lookup returns the class itself, it never
  calls it. The classes live in modules of their own; their class method
  \<open>get_pretty_name\<close> is a parameter of the lookup functions below.
\<close>

datatype optimizer =
    LevenbergMarquardt | GridSearch | Powell | NMSimplex | MetaOptimizer
  | SerialBasinHopping | SerialBFGS | SerialLM | SerialNMSimplex | SerialPowell

datatype filter_routine = GaussianFilter | MeanFilter | MedianFilter

datatype load_balancer =
    EvenDistribution | RuntimeLoadBalancing | PreferGPU | PreferCPU | PreferSpecificEnvironment

datatype error = ValueError string

text \<open>
  \<open>_get_item\<close>: the \<open>for\<close> loop returns at the first item whose pretty name is the
  requested one; when the loop runs out, the \<open>ValueError\<close> is raised with the formatted
  message.
\<close>

fun get_item :: "('c \<Rightarrow> string) \<Rightarrow> string \<Rightarrow> 'c list \<Rightarrow> string \<Rightarrow> error + 'c" where
  "get_item get_pretty_name name [] factory_type =
     Inl (ValueError (''The item with the name '' @ name @ '' could not be found in the ''
                      @ factory_type @ '' factory.''))"
| "get_item get_pretty_name name (item # item_list) factory_type =
     (if get_pretty_name item = name then Inr item
      else get_item get_pretty_name name item_list factory_type)"

definition get_optimizer_by_name :: "(optimizer \<Rightarrow> string) \<Rightarrow> string \<Rightarrow> error + optimizer" where
  "get_optimizer_by_name get_pretty_name name =
     get_item get_pretty_name name
       [LevenbergMarquardt, GridSearch, Powell, NMSimplex, MetaOptimizer, SerialBasinHopping,
        SerialBFGS, SerialLM, SerialNMSimplex, SerialPowell]
       ''optimizers''"

definition get_filter_by_name ::
  "(filter_routine \<Rightarrow> string) \<Rightarrow> string \<Rightarrow> error + filter_routine" where
  "get_filter_by_name get_pretty_name name =
     get_item get_pretty_name name [GaussianFilter, MeanFilter, MedianFilter] ''smoothers''"

definition get_load_balance_strategy_by_name ::
  "(load_balancer \<Rightarrow> string) \<Rightarrow> string \<Rightarrow> error + load_balancer" where
  "get_load_balance_strategy_by_name get_pretty_name name =
     get_item get_pretty_name name
       [EvenDistribution, RuntimeLoadBalancing, PreferGPU, PreferCPU, PreferSpecificEnvironment]
       ''load balancers''"

text \<open>
  The lookup in the words of its description: the first entry of the family's list, in
  order, whose pretty name is the requested one, and otherwise a not-found error with the
  name and the family's label.
\<close>

definition first_match_or_not_found ::
  "('c \<Rightarrow> string) \<Rightarrow> string \<Rightarrow> 'c list \<Rightarrow> string \<Rightarrow> error + 'c" where
  "first_match_or_not_found get_pretty_name name family label =
     (case find (\<lambda>item. get_pretty_name item = name) family of
        Some item \<Rightarrow> Inr item
      | None \<Rightarrow> Inl (ValueError (''The item with the name '' @ name
                                  @ '' could not be found in the '' @ label @ '' factory.'')))"

text \<open>An error names a string when the string occurs in its message.\<close>

fun names_string :: "error \<Rightarrow> string \<Rightarrow> bool" where
  "names_string (ValueError msg) s = sublist s msg"

text \<open>
  A sample of the parameter, for evaluating the lookups: every class answers with its
  class name.
\<close>

fun optimizer_class_name :: "optimizer \<Rightarrow> string" where
  "optimizer_class_name LevenbergMarquardt = ''LevenbergMarquardt''"
| "optimizer_class_name GridSearch = ''GridSearch''"
| "optimizer_class_name Powell = ''Powell''"
| "optimizer_class_name NMSimplex = ''NMSimplex''"
| "optimizer_class_name MetaOptimizer = ''MetaOptimizer''"
| "optimizer_class_name SerialBasinHopping = ''SerialBasinHopping''"
| "optimizer_class_name SerialBFGS = ''SerialBFGS''"
| "optimizer_class_name SerialLM = ''SerialLM''"
| "optimizer_class_name SerialNMSimplex = ''SerialNMSimplex''"
| "optimizer_class_name SerialPowell = ''SerialPowell''"

section \<open>Load balancing strategies\<close>

text \<open>
  Modelled from the spec: the module \<open>load_balance_strategies\<close> is imported by the factory
  and is not among the sources, so the environments, the five strategies and \<open>partition\<close>
  follow the description of the strategy family.
\<close>

datatype device_class = Accelerator | GeneralPurpose

text \<open>
  Modelled from the spec: an environment has an identifier, a device class and optionally a
  measured relative speed (a natural number here).
\<close>

record Environment =
  env_id :: string
  env_class :: device_class
  env_speed :: "nat option"

text \<open>
  Modelled from the spec: the variants of the strategy; \<open>PreferSpecificEnvironment\<close> carries
  the identifier of its target.
\<close>

datatype LoadBalanceStrategy =
    Strategy_EvenDistribution
  | Strategy_PreferGPU
  | Strategy_PreferCPU
  | Strategy_PreferSpecificEnvironment string
  | Strategy_RuntimeLoadBalancing

text \<open>Modelled from the spec: the one failure of \<open>partition\<close>, a configuration error.\<close>

datatype partition_error = ConfigurationError

text \<open>
  Modelled from the spec: "splits \<open>total_items\<close> as evenly as possible across all given
  environments, distributing the remainder (from integer division) to the first
  \<open>remainder\<close> environments in list order".
\<close>

definition even_counts :: "int \<Rightarrow> nat \<Rightarrow> int list" where
  "even_counts total_items n =
     map (\<lambda>i. total_items div int n + (if int i < total_items mod int n then 1 else 0)) [0..<n]"

text \<open>
  Modelled from the spec: the counts computed for the selected environments are handed out
  in list order, every other environment gets 0.
\<close>

fun assign_selected :: "(Environment \<Rightarrow> bool) \<Rightarrow> int list \<Rightarrow> Environment list \<Rightarrow> int list" where
  "assign_selected sel cs [] = []"
| "assign_selected sel cs (e # es) =
     (if sel e then (case cs of [] \<Rightarrow> 0 # assign_selected sel [] es
                     | c # cs' \<Rightarrow> c # assign_selected sel cs' es)
      else 0 # assign_selected sel cs es)"

text \<open>
  Modelled from the spec: "assigning all work to accelerator-class environments if any exist
  (split evenly among them per the EvenDistribution rule), falling back to general-purpose
  environments only if no accelerator-class environment is present"; PreferCPU is the
  same with the classes exchanged.
\<close>

definition prefer_class :: "device_class \<Rightarrow> int \<Rightarrow> Environment list \<Rightarrow> int list" where
  "prefer_class cls total_items environments =
     (let preferred = filter (\<lambda>e. env_class e = cls) environments in
      if preferred = [] then even_counts total_items (length environments)
      else assign_selected (\<lambda>e. env_class e = cls)
             (even_counts total_items (length preferred)) environments)"

text \<open>
  Modelled from the spec: "assigns all work to a single named environment", the first of
  that name in the list.
\<close>

fun all_to_named :: "string \<Rightarrow> int \<Rightarrow> Environment list \<Rightarrow> int list" where
  "all_to_named target total_items [] = []"
| "all_to_named target total_items (e # es) =
     (if env_id e = target then total_items # map (\<lambda>_. 0) es
      else 0 # all_to_named target total_items es)"

text \<open>
  Modelled from the spec: the position of the fastest environment, the first one in list
  order among equals.
\<close>

fun fastest :: "nat list \<Rightarrow> nat" where
  "fastest [] = 0"
| "fastest (x # xs) = (if list_all (\<lambda>y. y \<le> x) xs then 0 else Suc (fastest xs))"

text \<open>
  Modelled from the spec: "splits \<open>total_items\<close> proportionally to relative throughput,
  rounding down and assigning the rounding remainder to the fastest environment; must
  degrade gracefully to EvenDistribution behavior when no throughput estimates are
  available". Estimates count as available when every environment has one and they are
  not all zero.
\<close>

definition runtime_counts :: "int \<Rightarrow> Environment list \<Rightarrow> int list" where
  "runtime_counts total_items environments =
     (if list_all (\<lambda>e. env_speed e \<noteq> None) environments
         \<and> 0 < sum_list (map (\<lambda>e. the (env_speed e)) environments)
      then
        (let speeds = map (\<lambda>e. the (env_speed e)) environments;
             whole = sum_list speeds;
             shares = map (\<lambda>s. (total_items * int s) div int whole) speeds;
             remainder = total_items - sum_list shares;
             k = fastest speeds
         in shares[k := shares ! k + remainder])
      else even_counts total_items (length environments))"

text \<open>
  Modelled from the spec: \<open>partition(total_items, environments)\<close> maps each environment to
  its item count (here the list of pairs, in the order of the environments); it "fails with
  a configuration error if \<open>environments\<close> is empty, or (for PreferSpecificEnvironment) the
  named target is absent".
\<close>

fun partition_items ::
  "LoadBalanceStrategy \<Rightarrow> int \<Rightarrow> Environment list \<Rightarrow> partition_error + (Environment \<times> int) list" where
  "partition_items strategy total_items [] = Inl ConfigurationError"
| "partition_items Strategy_EvenDistribution total_items environments =
     Inr (zip environments (even_counts total_items (length environments)))"
| "partition_items Strategy_PreferGPU total_items environments =
     Inr (zip environments (prefer_class Accelerator total_items environments))"
| "partition_items Strategy_PreferCPU total_items environments =
     Inr (zip environments (prefer_class GeneralPurpose total_items environments))"
| "partition_items (Strategy_PreferSpecificEnvironment target) total_items environments =
     (if list_ex (\<lambda>e. env_id e = target) environments
      then Inr (zip environments (all_to_named target total_items environments))
      else Inl ConfigurationError)"
| "partition_items Strategy_RuntimeLoadBalancing total_items environments =
     Inr (zip environments (runtime_counts total_items environments))"

text \<open>The item counts of a partition, in list order.\<close>

definition item_counts :: "(Environment \<times> int) list \<Rightarrow> int list" where
  "item_counts p = map snd p"

text \<open>Whether the target a strategy names, if it names one, is among the environments.\<close>

fun target_present :: "LoadBalanceStrategy \<Rightarrow> Environment list \<Rightarrow> bool" where
  "target_present (Strategy_PreferSpecificEnvironment target) environments =
     list_ex (\<lambda>e. env_id e = target) environments"
| "target_present strategy environments = True"

section \<open>Properties of the proposals\<close>

subsection \<open>The generated fragments\<close>

lemma code_lines_update:
  "code_lines (get_parameter_update_function self) =
     [''#ifndef DMRIPROPOSAL_DEFAULT_PARAMETER_UPDATE'',
      ''#define DMRIPROPOSAL_DEFAULT_PARAMETER_UPDATE'',
      ''model_float dmriproposal_default_parameter_update(const model_float current_value,'',
      ''const uint acceptance_counter,'',
      ''const uint jump_counter){'',
      ''return min(current_value *'',
      ''sqrt( (model_float)(acceptance_counter+1) /'',
      ''((jump_counter - acceptance_counter) + 1)'',
      ''),'',
      ''1e10);'',
      ''}'',
      ''#endif //DMRIPROPOSAL_DEFAULT_PARAMETER_UPDATE'']"
  unfolding get_parameter_update_function_def by code_simp

lemma code_lines_proposal:
  "map_option code_lines (fst (get_proposal_function (GaussianProposal ps))) = Some
     [''#ifndef DMRIPROP_GAUSSIANPROPOSAL_CL'',
      ''#define DMRIPROP_GAUSSIANPROPOSAL_CL'',
      ''model_float dmriproposal_gaussianProposal(const model_float current, ranluxcl_state_t* const ranluxclstate,'',
      ''const model_float std){'',
      ''return current + std * ranluxcl_gaussian(ranluxclstate);'',
      ''}'',
      ''#endif //DMRIPROP_GAUSSIANPROPOSAL_CL'']"
  by code_simp

lemma length_proposal_source:
  "map_option length (fst (get_proposal_function (GaussianProposal ps))) = Some 444"
  by code_simp

lemma code_lines_logpdf:
  "map_option code_lines (get_proposal_logpdf_function (GaussianProposal ps)) = Some
     [''#ifndef DMRIPROP_GAUSSIANPROPOSALLOGPDF_CL'',
      ''#define DMRIPROP_GAUSSIANPROPOSALLOGPDF_CL'',
      ''model_float dmriproposal_gaussianProposalLogPDF(const model_float x, const model_float mu,'',
      ''const model_float std){'',
      ''return log(M_2_SQRTPI / std) + (-0.5 * pown((x - mu) / std, 2));'',
      ''}'',
      ''#endif //DMRIPROP_GAUSSIANPROPOSALLOGPDF_CL'']"
  by code_simp

lemma include_guard_update:
  "include_guard (get_parameter_update_function self) = Some ''DMRIPROPOSAL_DEFAULT_PARAMETER_UPDATE''"
  unfolding include_guard_def code_lines_update by simp

lemma names_update:
  "defined_function_names (get_parameter_update_function self) =
     Some [''dmriproposal_default_parameter_update'']"
  unfolding defined_function_names_def fragment_code_def code_lines_update by code_simp

lemma fragment_proposal:
  "\<exists>src. get_proposal_function (GaussianProposal ps) = (Some src, GaussianProposal ps)
     \<and> length src = 444
     \<and> include_guard src = Some ''DMRIPROP_GAUSSIANPROPOSAL_CL''
     \<and> defined_function_names src = Some [''dmriproposal_gaussianProposal'']"
proof -
  obtain src where s: "get_proposal_function (GaussianProposal ps) = (Some src, GaussianProposal ps)"
    by simp
  with code_lines_proposal [of ps] have c: "code_lines src =
     [''#ifndef DMRIPROP_GAUSSIANPROPOSAL_CL'',
      ''#define DMRIPROP_GAUSSIANPROPOSAL_CL'',
      ''model_float dmriproposal_gaussianProposal(const model_float current, ranluxcl_state_t* const ranluxclstate,'',
      ''const model_float std){'',
      ''return current + std * ranluxcl_gaussian(ranluxclstate);'',
      ''}'',
      ''#endif //DMRIPROP_GAUSSIANPROPOSAL_CL'']" by simp
  have "include_guard src = Some ''DMRIPROP_GAUSSIANPROPOSAL_CL''"
    unfolding include_guard_def c by simp
  moreover have "defined_function_names src = Some [''dmriproposal_gaussianProposal'']"
    unfolding defined_function_names_def fragment_code_def c by code_simp
  moreover have "length src = 444"
    using length_proposal_source [of ps] unfolding s by simp
  ultimately show ?thesis using s by blast
qed

lemma fragment_logpdf:
  "\<exists>src. get_proposal_logpdf_function (GaussianProposal ps) = Some src
     \<and> include_guard src = Some ''DMRIPROP_GAUSSIANPROPOSALLOGPDF_CL''
     \<and> defined_function_names src = Some [''dmriproposal_gaussianProposalLogPDF'']"
proof -
  obtain src where s: "get_proposal_logpdf_function (GaussianProposal ps) = Some src" by simp
  with code_lines_logpdf [of ps] have c: "code_lines src =
     [''#ifndef DMRIPROP_GAUSSIANPROPOSALLOGPDF_CL'',
      ''#define DMRIPROP_GAUSSIANPROPOSALLOGPDF_CL'',
      ''model_float dmriproposal_gaussianProposalLogPDF(const model_float x, const model_float mu,'',
      ''const model_float std){'',
      ''return log(M_2_SQRTPI / std) + (-0.5 * pown((x - mu) / std, 2));'',
      ''}'',
      ''#endif //DMRIPROP_GAUSSIANPROPOSALLOGPDF_CL'']" by simp
  have "include_guard src = Some ''DMRIPROP_GAUSSIANPROPOSALLOGPDF_CL''"
    unfolding include_guard_def c by simp
  moreover have "defined_function_names src = Some [''dmriproposal_gaussianProposalLogPDF'']"
    unfolding defined_function_names_def fragment_code_def c by code_simp
  ultimately show ?thesis using s by blast
qed

text \<open>
  C7: every generated fragment (the Gaussian jump kernel, the Gaussian log-density kernel and
  the default parameter update function) is wrapped in a matching include-guard pair, and
  its program text is exactly one function definition, with parameter list and closed body,
  whose name is the string its name accessor returns.
\<close>

theorem generated_fragments_guarded_and_named:
  "(\<exists>src name. fst (get_proposal_function (GaussianProposal ps)) = Some src
       \<and> get_proposal_function_name (GaussianProposal ps) = Some name
       \<and> include_guard src = Some ''DMRIPROP_GAUSSIANPROPOSAL_CL''
       \<and> defined_function_names src = Some [name])
   \<and> (\<exists>src name. get_proposal_logpdf_function (GaussianProposal ps) = Some src
       \<and> get_proposal_logpdf_function_name (GaussianProposal ps) = Some name
       \<and> include_guard src = Some ''DMRIPROP_GAUSSIANPROPOSALLOGPDF_CL''
       \<and> defined_function_names src = Some [name])
   \<and> include_guard (get_parameter_update_function q) = Some ''DMRIPROPOSAL_DEFAULT_PARAMETER_UPDATE''
   \<and> defined_function_names (get_parameter_update_function q) =
        Some [get_parameter_update_function_name q]"
proof -
  obtain src where "get_proposal_function (GaussianProposal ps) = (Some src, GaussianProposal ps)"
    and "include_guard src = Some ''DMRIPROP_GAUSSIANPROPOSAL_CL''"
    and "defined_function_names src = Some [''dmriproposal_gaussianProposal'']"
    using fragment_proposal [of ps] by blast
  then have a: "\<exists>src name. fst (get_proposal_function (GaussianProposal ps)) = Some src
       \<and> get_proposal_function_name (GaussianProposal ps) = Some name
       \<and> include_guard src = Some ''DMRIPROP_GAUSSIANPROPOSAL_CL''
       \<and> defined_function_names src = Some [name]"
    by simp
  have b: "\<exists>src name. get_proposal_logpdf_function (GaussianProposal ps) = Some src
       \<and> get_proposal_logpdf_function_name (GaussianProposal ps) = Some name
       \<and> include_guard src = Some ''DMRIPROP_GAUSSIANPROPOSALLOGPDF_CL''
       \<and> defined_function_names src = Some [name]"
    using fragment_logpdf [of ps] by simp
  show ?thesis
    using a b include_guard_update [of q] names_update [of q]
    by (simp only: get_parameter_update_function_name_def simp_thms)
qed

text \<open>
  C6: \<open>is_symmetric\<close> is true for every proposal that does not override it, and so for
  every \<open>GaussianProposal\<close>, however it was constructed.
\<close>

theorem is_symmetric_default:
  "is_symmetric p \<and> is_symmetric (GaussianProposal ps) \<and> is_symmetric (GaussianProposal_init s a)"
  by simp

text \<open>
  C8: \<open>GaussianProposal(std=s, adaptable=a).get_parameters()\<close> is the one-element sequence
  holding a parameter with default value \<open>s\<close> and adaptable flag \<open>a\<close>; an omitted \<open>std\<close>
  is 1.0 and an omitted flag is true; a second call on the instance returns the same
  sequence, and the instance is unchanged.
\<close>

theorem gaussian_get_parameters:
  "get_parameters (GaussianProposal_init (Some s) (Some a)) = Some [\<lparr>default_value = s, adaptable = a\<rparr>]
   \<and> get_parameters (GaussianProposal_init None None) = Some [\<lparr>default_value = 1.0, adaptable = True\<rparr>]
   \<and> get_parameters (GaussianProposal_init (Some s) None) = Some [\<lparr>default_value = s, adaptable = True\<rparr>]
   \<and> get_parameters (GaussianProposal_init None (Some a)) = Some [\<lparr>default_value = 1.0, adaptable = a\<rparr>]
   \<and> (case call_get_parameters (GaussianProposal_init so ao) of
        (r1, p1) \<Rightarrow> (case call_get_parameters p1 of
           (r2, p2) \<Rightarrow> r1 = r2 \<and> p1 = GaussianProposal_init so ao \<and> p2 = p1))"
  by (simp add: GaussianProposal_init_def ProposalParameter_init_def call_get_parameters_def)

text \<open>
  C9: calling \<open>get_proposal_function\<close> twice on any proposal instance returns the same
  value both times and leaves the instance as it was; on a Gaussian proposal both calls
  return the same source string, the 444 bytes of the guarded jump kernel.
\<close>

theorem get_proposal_function_twice:
  "(case get_proposal_function p of
      (s1, p1) \<Rightarrow> (case get_proposal_function p1 of
         (s2, p2) \<Rightarrow> s1 = s2 \<and> p1 = p \<and> p2 = p))
   \<and> (\<exists>src. get_proposal_function (GaussianProposal ps) = (Some src, GaussianProposal ps)
          \<and> get_proposal_function (snd (get_proposal_function (GaussianProposal ps))) =
              (Some src, GaussianProposal ps)
          \<and> length src = 444
          \<and> include_guard src = Some ''DMRIPROP_GAUSSIANPROPOSAL_CL'')"
proof -
  have a: "case get_proposal_function p of
      (s1, p1) \<Rightarrow> (case get_proposal_function p1 of
         (s2, p2) \<Rightarrow> s1 = s2 \<and> p1 = p \<and> p2 = p)"
    by (cases p) simp_all
  obtain src where s: "get_proposal_function (GaussianProposal ps) = (Some src, GaussianProposal ps)"
    and l: "length src = 444"
    and g: "include_guard src = Some ''DMRIPROP_GAUSSIANPROPOSAL_CL''"
    using fragment_proposal [of ps] by blast
  have "get_proposal_function (snd (get_proposal_function (GaussianProposal ps))) =
      (Some src, GaussianProposal ps)"
    unfolding s by (simp only: snd_conv s)
  with s l g have b: "\<exists>src. get_proposal_function (GaussianProposal ps) = (Some src, GaussianProposal ps)
          \<and> get_proposal_function (snd (get_proposal_function (GaussianProposal ps))) =
              (Some src, GaussianProposal ps)
          \<and> length src = 444
          \<and> include_guard src = Some ''DMRIPROP_GAUSSIANPROPOSAL_CL''"
    by blast
  from a b show ?thesis by (rule conjI)
qed

text \<open>
  C10: any two \<open>ProposalParameter\<close> instances, whatever their default value and adaptable
  flag (false included), return the same update-function source, the same name
  \<open>dmriproposal_default_parameter_update\<close> and hence the same include-guard symbol.
\<close>

theorem parameter_update_shared:
  "get_parameter_update_function p = get_parameter_update_function q
   \<and> get_parameter_update_function (ProposalParameter_init d1 False) =
       get_parameter_update_function (ProposalParameter_init d2 True)
   \<and> get_parameter_update_function_name p = ''dmriproposal_default_parameter_update''
   \<and> get_parameter_update_function_name q = ''dmriproposal_default_parameter_update''
   \<and> include_guard (get_parameter_update_function p) = Some ''DMRIPROPOSAL_DEFAULT_PARAMETER_UPDATE''
   \<and> include_guard (get_parameter_update_function q) = include_guard (get_parameter_update_function p)"
  using include_guard_update [of p] include_guard_update [of q]
  by (simp add: get_parameter_update_function_def get_parameter_update_function_name_def)

subsection \<open>The default parameter update rule\<close>

lemma update_without_wrap:
  assumes "unat a \<le> unat j" "unat a + 1 < 2 ^ 32" "unat j - unat a + 1 < 2 ^ 32"
  shows "dmriproposal_default_parameter_update v a j =
     Some (min (v * sqrt ((real (unat a) + 1) / (real (unat j) - real (unat a) + 1))) 10000000000)"
proof -
  have le: "a \<le> j" using assms(1) by (simp add: word_le_nat_alt)
  have n: "unat (a + 1) = unat a + 1"
    using assms(2) by (simp add: unat_add_lem [THEN iffD1])
  have s: "unat (j - a) = unat j - unat a" using le by (rule unat_sub)
  have d: "unat ((j - a) + 1) = unat j - unat a + 1"
    using assms(3) s by (simp add: unat_add_lem [THEN iffD1])
  have nz: "(j - a) + 1 \<noteq> 0"
  proof
    assume "(j - a) + 1 = 0"
    then have "unat ((j - a) + 1) = 0" by simp
    with d show False by simp
  qed
  have r: "real (unat j - unat a) = real (unat j) - real (unat a)"
    using assms(1) by (rule of_nat_diff)
  have eq1: "real (unat (a + 1)) = real (unat a) + 1"
    unfolding n by simp
  have eq2: "real (unat ((j - a) + 1)) = real (unat j) - real (unat a) + 1"
    unfolding d using r by simp
  show ?thesis
    unfolding dmriproposal_default_parameter_update_def Let_def eq1 eq2
    using nz by simp
qed

lemma update_at_zero: "dmriproposal_default_parameter_update v 0 0 = Some (min v 10000000000)"
  by (simp add: dmriproposal_default_parameter_update_def)

lemma update_1_9_9: "dmriproposal_default_parameter_update 1 9 9 = Some (sqrt 10)"
proof -
  have "sqrt 10 \<le> sqrt (10000000000 ^ 2)" by (rule real_sqrt_le_mono) simp
  then have "sqrt 10 \<le> 10000000000" by simp
  then show ?thesis by (simp add: dmriproposal_default_parameter_update_def)
qed

lemma update_1_9_0: "dmriproposal_default_parameter_update 1 9 0 = Some (sqrt (10 / 4294967288))"
proof -
  have "sqrt (10 / 4294967288) \<le> (1::real)" by simp
  then have "sqrt (10 / 4294967288) \<le> (10000000000::real)" by linarith
  then show ?thesis by (simp add: dmriproposal_default_parameter_update_def)
qed

lemma update_values: "sqrt (10 / 4294967288) < 1" "0 < sqrt (10 / 4294967288)" "sqrt 10 \<noteq> 1"
  by (simp_all)

text \<open>
  C1, as stated, fails in two places. With both counters zero the rule returns
  \<open>min(v, 1e10)\<close>, so a value above the bound is not returned unchanged: at \<open>v = 2e10\<close> the
  result is \<open>1e10\<close>. And with more acceptances than jumps the unsigned subtraction wraps:
  at \<open>(a, j) = (9, 0)\<close> the kernel returns the positive number \<open>sqrt(10/4294967288)\<close>,
  where the stated quotient \<open>(a + 1) / (j - a + 1)\<close> is negative.
\<close>

theorem default_update_rule_counterexample:
  "dmriproposal_default_parameter_update 20000000000 0 0 = Some 10000000000
   \<and> dmriproposal_default_parameter_update 20000000000 0 0 \<noteq> Some 20000000000
   \<and> dmriproposal_default_parameter_update 1 9 0 = Some (sqrt (10 / 4294967288))
   \<and> 0 < sqrt (10 / 4294967288 :: real)
   \<and> ((9 + 1) / (0 - 9 + 1) :: real) < 0"
  using update_at_zero [of 20000000000] update_1_9_0 by simp

text \<open>
  C1 (amended): for every real \<open>v\<close> and all counters with \<open>a \<le> j\<close> for which neither
  \<open>a + 1\<close> nor \<open>j - a + 1\<close> exceeds 32 bits, the rule computes
  \<open>min(v * sqrt((a + 1) / (j - a + 1)), 1e10)\<close>; with both counters zero it returns
  \<open>min(v, 1e10)\<close>, which is \<open>v\<close> for every \<open>v \<le> 1e10\<close>.
\<close>

theorem default_update_rule:
  "(unat a \<le> unat j \<and> unat a + 1 < 2 ^ 32 \<and> unat j - unat a + 1 < 2 ^ 32 \<longrightarrow>
      dmriproposal_default_parameter_update v a j =
        Some (min (v * sqrt ((real (unat a) + 1) / (real (unat j) - real (unat a) + 1)))
                  10000000000))
   \<and> dmriproposal_default_parameter_update v 0 0 = Some (min v 10000000000)
   \<and> (v \<le> 10000000000 \<longrightarrow> dmriproposal_default_parameter_update v 0 0 = Some v)"
  using update_without_wrap [of a j v] update_at_zero [of v] by simp

theorem default_update_rule_witness:
  "dmriproposal_default_parameter_update 2 3 8 =
     Some (min (2 * sqrt ((3 + 1) / (8 - 3 + 1))) 10000000000)
   \<and> dmriproposal_default_parameter_update 5 0 0 = Some 5"
  using default_update_rule [of 3 8 2] default_update_rule [of 0 0 5] by simp

text \<open>
  C2, as stated, fails at both evaluations: with 9 acceptances in 9 jumps the rule returns
  \<open>sqrt 10\<close>, not 1, and with the counters \<open>(9, 0)\<close> it returns \<open>sqrt(10/4294967288)\<close>,
  which is below 1.
\<close>

theorem update_boundary_counterexample:
  "dmriproposal_default_parameter_update 1 9 9 = Some (sqrt 10)
   \<and> sqrt 10 \<noteq> (1::real)
   \<and> dmriproposal_default_parameter_update 1 9 0 = Some (sqrt (10 / 4294967288))
   \<and> \<not> (1::real) \<le> sqrt (10 / 4294967288)"
  using update_1_9_9 update_1_9_0 by simp

text \<open>
  C2 (amended): \<open>update(1.0, 9, 9)\<close> is \<open>sqrt 10\<close>, which is above 3; \<open>update(1.0, 9, 0)\<close>, where
  the subtraction wraps to \<open>2^32 - 9\<close>, is at or below the upper bound 1e10, positive and
  below 1.
\<close>

theorem update_boundary_values:
  "dmriproposal_default_parameter_update 1 9 9 = Some (sqrt 10)
   \<and> 3 < sqrt (10::real)
   \<and> (\<exists>r. dmriproposal_default_parameter_update 1 9 0 = Some r
          \<and> r \<le> 10000000000 \<and> 0 < r \<and> r < 1)"
proof -
  have "(3::real) < sqrt 10" by (rule real_less_rsqrt) simp
  moreover have "sqrt (10 / 4294967288) \<le> (1::real)" by simp
  then have "sqrt (10 / 4294967288) \<le> (10000000000::real)" by linarith
  ultimately show ?thesis
    using update_1_9_9 update_1_9_0 update_values(1,2) by blast
qed

subsection \<open>The Gaussian log-density kernel\<close>

text \<open>
  C3: for every \<open>x\<close>, \<open>mu\<close> and \<open>std\<close> the log-density kernel computes
  \<open>log(2/(std*sqrt(pi))) - 0.5 * ((x - mu)/std)^2\<close>, a real number exactly when \<open>std\<close> is
  positive; with \<open>std = 2\<close> and \<open>x = mu\<close> it is \<open>log(2/(2*sqrt(pi)))\<close>.
\<close>

theorem gaussian_logpdf_formula:
  "dmriproposal_gaussianProposalLogPDF x mu std =
     (if 0 < std then Some (ln (2 / (std * sqrt pi)) - 0.5 * ((x - mu) / std) ^ 2) else None)
   \<and> dmriproposal_gaussianProposalLogPDF mu mu 2 = Some (ln (2 / (2 * sqrt pi)))"
  by (simp add: dmriproposal_gaussianProposalLogPDF_def M_2_SQRTPI_def mult.commute)

theorem gaussian_logpdf_formula_witness:
  "dmriproposal_gaussianProposalLogPDF 3 1 2 = Some (ln (2 / (2 * sqrt pi)) - 0.5 * ((3 - 1) / 2) ^ 2)
   \<and> dmriproposal_gaussianProposalLogPDF 7 7 2 = Some (ln (2 / (2 * sqrt pi)))"
  using gaussian_logpdf_formula [of 3 1 2] gaussian_logpdf_formula [of 7 7 2] by simp

section \<open>Properties of the factory\<close>

lemma get_item_first_match:
  "get_item pn name family label = first_match_or_not_found pn name family label"
  by (induction family) (simp_all add: first_match_or_not_found_def)

lemma not_found_names:
  "names_string (ValueError (a @ n @ b @ l @ c)) n \<and> names_string (ValueError (a @ n @ b @ l @ c)) l"
proof -
  have "sublist n (a @ n @ (b @ l @ c))" by (rule sublist_appendI)
  moreover have "sublist l ((a @ n @ b) @ l @ c)" by (rule sublist_appendI)
  ultimately show ?thesis by simp
qed

lemma get_item_not_found:
  assumes "find (\<lambda>item. pn item = name) family = None"
  shows "\<exists>e. get_item pn name family label = Inl e \<and> names_string e name \<and> names_string e label"
  unfolding get_item_first_match first_match_or_not_found_def assms
  using not_found_names [of "''The item with the name ''" name "'' could not be found in the ''" label "'' factory.''"]
  by simp

text \<open>
  C4: every lookup scans its family's list in order and returns the first class whose
  pretty name is the requested one, the class itself; when no entry matches it fails with
  an error whose message contains the requested name and the family's label. So
  \<open>get_optimizer_by_name("NonexistentAlgorithm")\<close>, no optimizer having that pretty name,
  fails with an error naming "NonexistentAlgorithm" and "optimizers".
\<close>

theorem factory_lookup:
  "get_item pn name family label = first_match_or_not_found pn name family label
   \<and> (find (\<lambda>item. pn item = name) family = None \<longrightarrow>
        (\<exists>e. get_item pn name family label = Inl e \<and> names_string e name \<and> names_string e label))
   \<and> get_optimizer_by_name po name =
        first_match_or_not_found po name
          [LevenbergMarquardt, GridSearch, Powell, NMSimplex, MetaOptimizer, SerialBasinHopping,
           SerialBFGS, SerialLM, SerialNMSimplex, SerialPowell] ''optimizers''
   \<and> get_filter_by_name pf name =
        first_match_or_not_found pf name [GaussianFilter, MeanFilter, MedianFilter] ''smoothers''
   \<and> get_load_balance_strategy_by_name pl name =
        first_match_or_not_found pl name
          [EvenDistribution, RuntimeLoadBalancing, PreferGPU, PreferCPU, PreferSpecificEnvironment]
          ''load balancers''
   \<and> (list_all (\<lambda>c. po c \<noteq> ''NonexistentAlgorithm'')
         [LevenbergMarquardt, GridSearch, Powell, NMSimplex, MetaOptimizer, SerialBasinHopping,
          SerialBFGS, SerialLM, SerialNMSimplex, SerialPowell] \<longrightarrow>
        (\<exists>e. get_optimizer_by_name po ''NonexistentAlgorithm'' = Inl e
           \<and> names_string e ''NonexistentAlgorithm'' \<and> names_string e ''optimizers''))"
proof -
  have a: "find (\<lambda>item. pn item = name) family = None \<longrightarrow>
        (\<exists>e. get_item pn name family label = Inl e \<and> names_string e name \<and> names_string e label)"
    using get_item_not_found by blast
  have b: "list_all (\<lambda>c. po c \<noteq> ''NonexistentAlgorithm'')
         [LevenbergMarquardt, GridSearch, Powell, NMSimplex, MetaOptimizer, SerialBasinHopping,
          SerialBFGS, SerialLM, SerialNMSimplex, SerialPowell] \<longrightarrow>
        (\<exists>e. get_optimizer_by_name po ''NonexistentAlgorithm'' = Inl e
           \<and> names_string e ''NonexistentAlgorithm'' \<and> names_string e ''optimizers'')"
  proof
    assume "list_all (\<lambda>c. po c \<noteq> ''NonexistentAlgorithm'')
         [LevenbergMarquardt, GridSearch, Powell, NMSimplex, MetaOptimizer, SerialBasinHopping,
          SerialBFGS, SerialLM, SerialNMSimplex, SerialPowell]"
    then have "find (\<lambda>item. po item = ''NonexistentAlgorithm'')
         [LevenbergMarquardt, GridSearch, Powell, NMSimplex, MetaOptimizer, SerialBasinHopping,
          SerialBFGS, SerialLM, SerialNMSimplex, SerialPowell] = None"
      by simp
    then show "\<exists>e. get_optimizer_by_name po ''NonexistentAlgorithm'' = Inl e
           \<and> names_string e ''NonexistentAlgorithm'' \<and> names_string e ''optimizers''"
      unfolding get_optimizer_by_name_def by (rule get_item_not_found)
  qed
  show ?thesis
    using a b
    by (simp only: get_item_first_match get_optimizer_by_name_def get_filter_by_name_def
        get_load_balance_strategy_by_name_def simp_thms)
qed

theorem factory_lookup_witness:
  "get_optimizer_by_name optimizer_class_name ''Powell'' = Inr Powell
   \<and> (\<exists>e. get_item optimizer_class_name ''Simplex'' [GridSearch, Powell] ''optimizers'' = Inl e
         \<and> names_string e ''Simplex'' \<and> names_string e ''optimizers'')
   \<and> (\<exists>e. get_optimizer_by_name optimizer_class_name ''NonexistentAlgorithm'' = Inl e
         \<and> names_string e ''NonexistentAlgorithm'' \<and> names_string e ''optimizers'')"
  using factory_lookup [where pn = optimizer_class_name and name = "''Simplex''"
      and family = "[GridSearch, Powell]" and label = "''optimizers''"
      and po = optimizer_class_name and pf = "\<lambda>c. []" and pl = "\<lambda>c. []"]
    factory_lookup [where pn = optimizer_class_name and name = "''Powell''"
      and family = "[GridSearch, Powell]" and label = "''optimizers''"
      and po = optimizer_class_name and pf = "\<lambda>c. []" and pl = "\<lambda>c. []"]
  by (simp add: first_match_or_not_found_def)

section \<open>Properties of the load balancing strategies\<close>

lemma length_even_counts: "length (even_counts t n) = n"
  by (simp add: even_counts_def)

lemma sum_even_aux:
  "0 \<le> r \<Longrightarrow>
   sum_list (map (\<lambda>i. q + (if int i < r then 1 else 0)) [0..<n]) = int n * q + min (int n) r"
  by (induction n) (auto simp: algebra_simps min_def)

lemma sum_even_counts:
  assumes "0 < n"
  shows "sum_list (even_counts t n) = t"
proof -
  have r0: "0 \<le> t mod int n" and rn: "t mod int n < int n"
    using assms by simp_all
  have "sum_list (even_counts t n) = int n * (t div int n) + min (int n) (t mod int n)"
    unfolding even_counts_def by (rule sum_even_aux [OF r0])
  also have "\<dots> = int n * (t div int n) + t mod int n"
    using rn by (simp add: min_def)
  also have "\<dots> = t" by simp
  finally show ?thesis .
qed

lemma even_counts_nonneg:
  assumes "0 \<le> t"
  shows "list_all (\<lambda>c. 0 \<le> c) (even_counts t n)"
proof -
  have "0 \<le> t div int n" using assms by (simp add: pos_imp_zdiv_nonneg_iff div_int_pos_iff)
  then show ?thesis by (simp add: even_counts_def list_all_iff)
qed

lemma even_counts_zero: "list_all (\<lambda>c. c = 0) (even_counts 0 n)"
  by (simp add: even_counts_def list_all_iff)

lemma length_assign_selected: "length (assign_selected sel cs es) = length es"
  by (induction sel cs es rule: assign_selected.induct) (auto split: list.splits)

lemma sum_assign_selected:
  "length cs = length (filter sel es) \<Longrightarrow> sum_list (assign_selected sel cs es) = sum_list cs"
  by (induction sel cs es rule: assign_selected.induct) (auto split: list.splits)

lemma assign_selected_all:
  "P 0 \<Longrightarrow> list_all P cs \<Longrightarrow> list_all P (assign_selected sel cs es)"
  by (induction sel cs es rule: assign_selected.induct) (auto split: list.splits)

lemma length_prefer_class: "length (prefer_class cls t es) = length es"
  by (simp add: prefer_class_def Let_def length_even_counts length_assign_selected)

lemma sum_prefer_class:
  assumes "es \<noteq> []"
  shows "sum_list (prefer_class cls t es) = t"
proof (cases "filter (\<lambda>e. env_class e = cls) es = []")
  case True
  then show ?thesis using assms by (simp add: prefer_class_def sum_even_counts)
next
  case False
  then have "0 < length (filter (\<lambda>e. env_class e = cls) es)" by simp
  then show ?thesis using False
    by (simp add: prefer_class_def Let_def sum_assign_selected length_even_counts sum_even_counts)
qed

lemma prefer_class_nonneg:
  "0 \<le> t \<Longrightarrow> list_all (\<lambda>c. 0 \<le> c) (prefer_class cls t es)"
  by (simp add: prefer_class_def Let_def even_counts_nonneg assign_selected_all)

lemma prefer_class_zero: "list_all (\<lambda>c. c = 0) (prefer_class cls 0 es)"
  by (simp add: prefer_class_def Let_def even_counts_zero assign_selected_all)

lemma length_all_to_named: "length (all_to_named x t es) = length es"
  by (induction es) auto

lemma sum_list_zeros: "sum_list (map (\<lambda>_. 0::int) es) = 0"
  by (induction es) auto

lemma sum_all_to_named:
  "list_ex (\<lambda>e. env_id e = x) es \<Longrightarrow> sum_list (all_to_named x t es) = t"
  by (induction es) (auto simp: sum_list_zeros)

lemma all_to_named_all:
  "P 0 \<Longrightarrow> P t \<Longrightarrow> list_all P (all_to_named x t es)"
  by (induction es) (auto simp: list_all_iff)

lemma fastest_less: "xs \<noteq> [] \<Longrightarrow> fastest xs < length xs"
proof (induction xs)
  case Nil
  then show ?case by simp
next
  case (Cons x xs)
  show ?case
  proof (cases "list_all (\<lambda>y. y \<le> x) xs")
    case True
    then show ?thesis by simp
  next
    case False
    then have "xs \<noteq> []" by auto
    with Cons.IH False show ?thesis by simp
  qed
qed

lemma sum_list_bump:
  "k < length xs \<Longrightarrow> sum_list (xs[k := xs ! k + (r::int)]) = sum_list xs + r"
  by (induction xs arbitrary: k) (auto split: nat.splits)

lemma list_all_bump:
  "list_all P xs \<Longrightarrow> P (xs ! k + (r::int)) \<Longrightarrow> list_all P (xs[k := xs ! k + r])"
  by (induction xs arbitrary: k) (auto split: nat.splits)

lemma shares_le:
  assumes "0 < w"
  shows "int w * sum_list (map (\<lambda>s. (t * int s) div int w) ss) \<le> t * int (sum_list ss)"
proof (induction ss)
  case Nil
  then show ?case by simp
next
  case (Cons s ss)
  have "t * int s = int w * ((t * int s) div int w) + (t * int s) mod int w"
    by simp
  moreover have "0 \<le> (t * int s) mod int w"
    using assms by simp
  ultimately have "int w * ((t * int s) div int w) \<le> t * int s"
    by linarith
  with Cons show ?case by (simp add: algebra_simps)
qed

lemma shares_sum_le:
  assumes "0 < sum_list ss"
  shows "sum_list (map (\<lambda>s. (t * int s) div int (sum_list ss)) ss) \<le> t"
proof -
  let ?w = "int (sum_list ss)"
  have "?w * sum_list (map (\<lambda>s. (t * int s) div ?w) ss) \<le> t * ?w"
    using shares_le [OF assms, of t ss] by simp
  then have "sum_list (map (\<lambda>s. (t * int s) div ?w) ss) * ?w \<le> t * ?w"
    by (simp add: mult.commute)
  then show ?thesis using assms by (simp add: mult_le_cancel_right)
qed

lemma shares_nonneg:
  "0 \<le> t \<Longrightarrow> list_all (\<lambda>c. 0 \<le> c) (map (\<lambda>s. (t * int s) div int w) ss)"
  by (simp add: list_all_iff pos_imp_zdiv_nonneg_iff div_int_pos_iff)

lemma length_runtime_counts: "length (runtime_counts t es) = length es"
  by (simp add: runtime_counts_def Let_def length_even_counts)

lemma runtime_counts_estimates:
  assumes "list_all (\<lambda>e. env_speed e \<noteq> None) es
         \<and> 0 < sum_list (map (\<lambda>e. the (env_speed e)) es)"
  shows "runtime_counts t es =
     (map (\<lambda>s. (t * int s) div int (sum_list (map (\<lambda>e. the (env_speed e)) es)))
          (map (\<lambda>e. the (env_speed e)) es))
     [fastest (map (\<lambda>e. the (env_speed e)) es) :=
        (map (\<lambda>s. (t * int s) div int (sum_list (map (\<lambda>e. the (env_speed e)) es)))
          (map (\<lambda>e. the (env_speed e)) es)) ! fastest (map (\<lambda>e. the (env_speed e)) es)
        + (t - sum_list (map (\<lambda>s. (t * int s) div int (sum_list (map (\<lambda>e. the (env_speed e)) es)))
          (map (\<lambda>e. the (env_speed e)) es)))]"
  unfolding runtime_counts_def Let_def using assms by (rule if_P)

lemma runtime_counts_even:
  assumes "\<not> (list_all (\<lambda>e. env_speed e \<noteq> None) es
         \<and> 0 < sum_list (map (\<lambda>e. the (env_speed e)) es))"
  shows "runtime_counts t es = even_counts t (length es)"
  unfolding runtime_counts_def using assms by (rule if_not_P)

lemma sum_runtime_counts:
  assumes "es \<noteq> []"
  shows "sum_list (runtime_counts t es) = t"
proof (cases "list_all (\<lambda>e. env_speed e \<noteq> None) es
         \<and> 0 < sum_list (map (\<lambda>e. the (env_speed e)) es)")
  case True
  let ?ss = "map (\<lambda>e. the (env_speed e)) es"
  let ?sh = "map (\<lambda>s. (t * int s) div int (sum_list ?ss)) ?ss"
  have "fastest ?ss < length ?sh" using assms fastest_less [of ?ss] by simp
  then have "sum_list (?sh[fastest ?ss := ?sh ! fastest ?ss + (t - sum_list ?sh)]) = sum_list ?sh + (t - sum_list ?sh)"
    by (rule sum_list_bump)
  then show ?thesis unfolding runtime_counts_estimates [OF True] by simp
next
  case False
  show ?thesis unfolding runtime_counts_even [OF False]
    using assms by (simp add: sum_even_counts)
qed

lemma runtime_counts_nonneg:
  assumes "0 \<le> t"
  shows "list_all (\<lambda>c. 0 \<le> c) (runtime_counts t es)"
proof (cases "list_all (\<lambda>e. env_speed e \<noteq> None) es
         \<and> 0 < sum_list (map (\<lambda>e. the (env_speed e)) es)")
  case True
  let ?ss = "map (\<lambda>e. the (env_speed e)) es"
  let ?sh = "map (\<lambda>s. (t * int s) div int (sum_list ?ss)) ?ss"
  have a: "list_all (\<lambda>c. 0 \<le> c) ?sh" using assms by (rule shares_nonneg)
  have "sum_list ?sh \<le> t" using True by (intro shares_sum_le) simp
  moreover have "0 \<le> ?sh ! fastest ?ss"
  proof -
    have "es \<noteq> []" using True by auto
    then have "fastest ?ss < length ?sh" using fastest_less [of ?ss] by simp
    with a show ?thesis unfolding list_all_length by blast
  qed
  ultimately have "0 \<le> ?sh ! fastest ?ss + (t - sum_list ?sh)" by linarith
  with a have "list_all (\<lambda>c. 0 \<le> c) (?sh[fastest ?ss := ?sh ! fastest ?ss + (t - sum_list ?sh)])"
    by (rule list_all_bump)
  then show ?thesis unfolding runtime_counts_estimates [OF True] .
next
  case False
  show ?thesis unfolding runtime_counts_even [OF False]
    using assms by (rule even_counts_nonneg)
qed

lemma runtime_counts_zero: "list_all (\<lambda>c. c = 0) (runtime_counts 0 es)"
proof (cases "list_all (\<lambda>e. env_speed e \<noteq> None) es
         \<and> 0 < sum_list (map (\<lambda>e. the (env_speed e)) es)")
  case True
  let ?ss = "map (\<lambda>e. the (env_speed e)) es"
  let ?sh = "map (\<lambda>s. ((0::int) * int s) div int (sum_list ?ss)) ?ss"
  have a: "list_all (\<lambda>c. c = 0) ?sh" by (simp add: list_all_iff)
  have s: "sum_list ?sh = 0" by (simp add: comp_def)
  have "es \<noteq> []" using True by auto
  then have "fastest ?ss < length ?sh" using fastest_less [of ?ss] by simp
  with a have "?sh ! fastest ?ss = 0" unfolding list_all_length by blast
  then have "?sh ! fastest ?ss + (0 - sum_list ?sh) = 0" using s by linarith
  with a have "list_all (\<lambda>c. c = 0) (?sh[fastest ?ss := ?sh ! fastest ?ss + (0 - sum_list ?sh)])"
    by (rule list_all_bump)
  then show ?thesis unfolding runtime_counts_estimates [OF True] .
next
  case False
  show ?thesis unfolding runtime_counts_even [OF False]
    by (rule even_counts_zero)
qed

lemma partition_items_ok:
  assumes "0 \<le> t" "es \<noteq> []" "length cs = length es" "sum_list cs = t"
    "list_all (\<lambda>c. 0 \<le> c) cs" "t = 0 \<longrightarrow> list_all (\<lambda>c. c = 0) cs"
  shows "map fst (zip es cs) = es \<and> list_all (\<lambda>c. 0 \<le> c) (item_counts (zip es cs))
       \<and> sum_list (item_counts (zip es cs)) = t
       \<and> (t = 0 \<longrightarrow> list_all (\<lambda>c. c = 0) (item_counts (zip es cs)))"
  using assms by (simp add: item_counts_def)

lemma partition_items_nonempty:
  assumes "es \<noteq> []"
  shows "partition_items Strategy_EvenDistribution t es = Inr (zip es (even_counts t (length es)))"
    and "partition_items Strategy_PreferGPU t es = Inr (zip es (prefer_class Accelerator t es))"
    and "partition_items Strategy_PreferCPU t es = Inr (zip es (prefer_class GeneralPurpose t es))"
    and "partition_items (Strategy_PreferSpecificEnvironment x) t es =
          (if list_ex (\<lambda>e. env_id e = x) es then Inr (zip es (all_to_named x t es))
           else Inl ConfigurationError)"
    and "partition_items Strategy_RuntimeLoadBalancing t es = Inr (zip es (runtime_counts t es))"
  using assms by (cases es; simp)+

lemma partition_items_cases:
  assumes "0 \<le> total_items" and "environments \<noteq> []"
  shows "(target_present strategy environments \<longrightarrow>
           (\<exists>p. partition_items strategy total_items environments = Inr p
              \<and> map fst p = environments
              \<and> list_all (\<lambda>c. 0 \<le> c) (item_counts p)
              \<and> sum_list (item_counts p) = total_items
              \<and> (total_items = 0 \<longrightarrow> list_all (\<lambda>c. c = 0) (item_counts p))))
       \<and> (\<not> target_present strategy environments \<longrightarrow>
            partition_items strategy total_items environments = Inl ConfigurationError)"
proof (cases strategy)
  case Strategy_EvenDistribution
  have "0 < length environments" using assms(2) by simp
  then have "sum_list (even_counts total_items (length environments)) = total_items"
    by (rule sum_even_counts)
  then show ?thesis
    using partition_items_ok [OF assms, of "even_counts total_items (length environments)"]
      even_counts_nonneg [OF assms(1), of "length environments"]
      even_counts_zero [of "length environments"]
    unfolding Strategy_EvenDistribution partition_items_nonempty [OF assms(2)]
    by (simp add: length_even_counts)
next
  case Strategy_PreferGPU
  show ?thesis
    using partition_items_ok [OF assms, of "prefer_class Accelerator total_items environments"]
      prefer_class_nonneg [OF assms(1), of Accelerator environments]
      prefer_class_zero [of Accelerator environments]
      sum_prefer_class [OF assms(2), of Accelerator total_items]
    unfolding Strategy_PreferGPU partition_items_nonempty [OF assms(2)]
    by (simp add: length_prefer_class)
next
  case Strategy_PreferCPU
  show ?thesis
    using partition_items_ok [OF assms, of "prefer_class GeneralPurpose total_items environments"]
      prefer_class_nonneg [OF assms(1), of GeneralPurpose environments]
      prefer_class_zero [of GeneralPurpose environments]
      sum_prefer_class [OF assms(2), of GeneralPurpose total_items]
    unfolding Strategy_PreferCPU partition_items_nonempty [OF assms(2)]
    by (simp add: length_prefer_class)
next
  case (Strategy_PreferSpecificEnvironment target)
  show ?thesis
  proof (cases "list_ex (\<lambda>e. env_id e = target) environments")
    case True
    have "list_all (\<lambda>c. 0 \<le> c) (all_to_named target total_items environments)"
      using assms(1) by (simp add: all_to_named_all)
    moreover have "total_items = 0 \<longrightarrow>
        list_all (\<lambda>c. c = 0) (all_to_named target total_items environments)"
      by (simp add: all_to_named_all)
    ultimately show ?thesis
      using partition_items_ok [OF assms, of "all_to_named target total_items environments"]
        sum_all_to_named [OF True, of total_items] True
      unfolding Strategy_PreferSpecificEnvironment partition_items_nonempty [OF assms(2)]
      by (simp add: length_all_to_named)
  next
    case False
    then show ?thesis
      unfolding Strategy_PreferSpecificEnvironment partition_items_nonempty [OF assms(2)]
      by simp
  qed
next
  case Strategy_RuntimeLoadBalancing
  show ?thesis
    using partition_items_ok [OF assms, of "runtime_counts total_items environments"]
      runtime_counts_nonneg [OF assms(1), of environments]
      runtime_counts_zero [of environments]
      sum_runtime_counts [OF assms(2), of total_items]
    unfolding Strategy_RuntimeLoadBalancing partition_items_nonempty [OF assms(2)]
    by (simp add: length_runtime_counts)
qed

text \<open>
  C5: for every \<open>total_items \<ge> 0\<close> and every non-empty list of environments, the counts
  that the partition of any strategy variant returns, one for each environment in list
  order, are all non-negative and sum exactly to \<open>total_items\<close>, and all of them are 0 when
  \<open>total_items = 0\<close>. The partition does return counts for every variant; only
  \<open>PreferSpecificEnvironment\<close> with a target that is not in the list has none to return.
\<close>

theorem partition_items_invariant:
  assumes "0 \<le> total_items" and "environments \<noteq> []"
  shows "(partition_items strategy total_items environments = Inr p \<longrightarrow>
            map fst p = environments
            \<and> list_all (\<lambda>c. 0 \<le> c) (item_counts p)
            \<and> sum_list (item_counts p) = total_items
            \<and> (total_items = 0 \<longrightarrow> list_all (\<lambda>c. c = 0) (item_counts p)))
       \<and> ((\<exists>q. partition_items strategy total_items environments = Inr q)
            = target_present strategy environments)"
proof (cases "target_present strategy environments")
  case True
  with partition_items_cases [OF assms, of strategy]
  obtain q where q: "partition_items strategy total_items environments = Inr q"
    and inv: "map fst q = environments" "list_all (\<lambda>c. 0 \<le> c) (item_counts q)"
      "sum_list (item_counts q) = total_items"
      "total_items = 0 \<longrightarrow> list_all (\<lambda>c. c = 0) (item_counts q)"
    by blast
  show ?thesis
  proof (intro conjI impI)
    assume "partition_items strategy total_items environments = Inr p"
    with q have "p = q" by simp
    with inv show "map fst p = environments" "list_all (\<lambda>c. 0 \<le> c) (item_counts p)"
      "sum_list (item_counts p) = total_items"
      by simp_all
    assume "total_items = 0"
    with inv(4) \<open>p = q\<close> show "list_all (\<lambda>c. c = 0) (item_counts p)" by simp
  next
    show "(\<exists>q. partition_items strategy total_items environments = Inr q)
            = target_present strategy environments"
      using True q by blast
  qed
next
  case False
  with partition_items_cases [OF assms, of strategy]
  have "partition_items strategy total_items environments = Inl ConfigurationError"
    by blast
  with False show ?thesis by simp
qed

theorem partition_items_invariant_witness:
  "partition_items Strategy_EvenDistribution 10
      [\<lparr>env_id = ''A'', env_class = GeneralPurpose, env_speed = None\<rparr>,
       \<lparr>env_id = ''B'', env_class = Accelerator, env_speed = None\<rparr>,
       \<lparr>env_id = ''C'', env_class = Accelerator, env_speed = None\<rparr>]
    = Inr [(\<lparr>env_id = ''A'', env_class = GeneralPurpose, env_speed = None\<rparr>, 4),
           (\<lparr>env_id = ''B'', env_class = Accelerator, env_speed = None\<rparr>, 3),
           (\<lparr>env_id = ''C'', env_class = Accelerator, env_speed = None\<rparr>, 3)]
   \<and> sum_list (item_counts
        [(\<lparr>env_id = ''A'', env_class = GeneralPurpose, env_speed = None\<rparr>, 4),
         (\<lparr>env_id = ''B'', env_class = Accelerator, env_speed = None\<rparr>, 3),
         (\<lparr>env_id = ''C'', env_class = Accelerator, env_speed = None\<rparr>, 3::int)]) = 10
   \<and> partition_items (Strategy_PreferSpecificEnvironment ''B'') 0
        [\<lparr>env_id = ''A'', env_class = GeneralPurpose, env_speed = Some 1\<rparr>,
         \<lparr>env_id = ''B'', env_class = Accelerator, env_speed = Some 5\<rparr>]
      = Inr [(\<lparr>env_id = ''A'', env_class = GeneralPurpose, env_speed = Some 1\<rparr>, 0),
             (\<lparr>env_id = ''B'', env_class = Accelerator, env_speed = Some 5\<rparr>, 0)]
   \<and> list_all (\<lambda>c. c = 0) (item_counts
        [(\<lparr>env_id = ''A'', env_class = GeneralPurpose, env_speed = Some 1\<rparr>, 0),
         (\<lparr>env_id = ''B'', env_class = Accelerator, env_speed = Some 5\<rparr>, 0::int)])
   \<and> (\<exists>q. partition_items Strategy_RuntimeLoadBalancing 7
             [\<lparr>env_id = ''A'', env_class = GeneralPurpose, env_speed = Some 1\<rparr>,
              \<lparr>env_id = ''B'', env_class = Accelerator, env_speed = Some 5\<rparr>] = Inr q)"
  using partition_items_invariant [where total_items = 10
      and environments = "[\<lparr>env_id = ''A'', env_class = GeneralPurpose, env_speed = None\<rparr>,
       \<lparr>env_id = ''B'', env_class = Accelerator, env_speed = None\<rparr>,
       \<lparr>env_id = ''C'', env_class = Accelerator, env_speed = None\<rparr>]"
      and strategy = Strategy_EvenDistribution
      and p = "[(\<lparr>env_id = ''A'', env_class = GeneralPurpose, env_speed = None\<rparr>, 4),
           (\<lparr>env_id = ''B'', env_class = Accelerator, env_speed = None\<rparr>, 3),
           (\<lparr>env_id = ''C'', env_class = Accelerator, env_speed = None\<rparr>, 3)]"]
    partition_items_invariant [where total_items = 0
      and environments = "[\<lparr>env_id = ''A'', env_class = GeneralPurpose, env_speed = Some 1\<rparr>,
        \<lparr>env_id = ''B'', env_class = Accelerator, env_speed = Some 5\<rparr>]"
      and strategy = "Strategy_PreferSpecificEnvironment ''B''"
      and p = "[(\<lparr>env_id = ''A'', env_class = GeneralPurpose, env_speed = Some 1\<rparr>, 0),
             (\<lparr>env_id = ''B'', env_class = Accelerator, env_speed = Some 5\<rparr>, 0)]"]
    partition_items_invariant [where total_items = 7
      and environments = "[\<lparr>env_id = ''A'', env_class = GeneralPurpose, env_speed = Some 1\<rparr>,
        \<lparr>env_id = ''B'', env_class = Accelerator, env_speed = Some 5\<rparr>]"
      and strategy = Strategy_RuntimeLoadBalancing and p = "[]"]
  by (simp add: even_counts_def item_counts_def upt_rec)

end
